theory Spec2Isabelle
  imports Complex_Main
begin

section \<open>Data of the chat application (pdf\_chat\_app.py)\<close>

text \<open>
  An exception is identified by its message, the string that \<open>str(e)\<close> gives.
  A text is a list of characters; the script only joins texts and hands them on.
\<close>

type_synonym exn = string

text \<open>One entry of \<open>st.session_state.chat_history\<close>: the dictionary with the keys
  \<open>'question'\<close> and \<open>'answer'\<close>.\<close>

record turn =
  question :: string
  answer :: string

text \<open>The objects that \<open>get_vectorstore\<close> and \<open>get_conversation_chain\<close> build, with the
  arguments they pass.\<close>

record chat_openai =
  openai_api_key :: string
  model_name :: string
  temperature :: rat

record conversation_buffer_memory =
  memory_key :: string
  return_messages :: bool
  output_key :: string
  buffer :: "turn list"

record vector_store =
  texts :: "string list"
  embedding_api_key :: string
  store_index_name :: string

record chain =
  llm :: chat_openai
  retriever :: vector_store
  search_k :: nat
  memory :: conversation_buffer_memory
  return_source_documents :: bool

text \<open>The three keys of \<open>st.session_state\<close>, and their values on the first run of the script.\<close>

record session_state =
  conversation :: "chain option"
  chat_history :: "turn list"
  processed :: bool

definition initial_session_state :: session_state where
  "initial_session_state = \<lparr>conversation = None, chat_history = [], processed = False\<rparr>"

text \<open>What the script writes to the page, in the order it writes it.\<close>

datatype ui =
    Warning string
  | Error string
  | Info string
  | Success string
  | UserMessage string
  | AssistantMessage string

text \<open>
  The index service as the script sees it: the indexes that \<open>list_indexes\<close> reports.
  The requests sent to the outside services are listed in the order they are sent; the list
  is a record of what the code does, and no result depends on it.
\<close>

record index_model =
  name :: string
  dimension :: nat
  metric :: string
  cloud :: string
  region :: string

record pinecone =
  indexes :: "index_model list"

datatype request =
    ListIndexes
  | CreateIndex index_model
  | Sleep nat
  | FromTexts "string list" string
  | Invoke string

fun is_create :: "request \<Rightarrow> bool" where
  "is_create (CreateIndex d) = True"
| "is_create r = False"

text \<open>The arguments that \<open>get_text_chunks\<close> gives to the text splitter; its measure
  \<open>length_function\<close> is \<open>len\<close>.\<close>

record splitter =
  chunk_size :: nat
  chunk_overlap :: nat
  separators :: "string list"

text \<open>
  The replies of the libraries and outside services, which the script cannot compute: the pages
  of an uploaded file with the text of each (reading a file or a page may raise), the chunks
  that the text splitter returns for a text, or the exception it raises, whether embedding and
  storing the chunks raises, whether building the chain raises, and what calling the chain
  object with a question does: the answer or the exception, and the chain after the call,
  with whatever the chain library has done to its memory.
\<close>

record 'pdf services =
  pdf_reader :: "'pdf \<Rightarrow> exn + (exn + string) list"
  split_text :: "splitter \<Rightarrow> string \<Rightarrow> exn + string list"
  from_texts :: "string list \<Rightarrow> string \<Rightarrow> string \<Rightarrow> exn option"
  from_llm :: "chat_openai \<Rightarrow> vector_store \<Rightarrow> exn option"
  call_chain :: "chain \<Rightarrow> string \<Rightarrow> (exn + string) \<times> chain"

text \<open>
  The result of one call of a function of the script: the exception that left it, if one did,
  the session state it leaves, what it wrote to the page and the requests it sent.
\<close>

record run =
  raised :: "exn option"
  session :: session_state
  shown :: "ui list"
  requests :: "request list"

record main_run = run +
  service :: pinecone

section \<open>Extracting the text\<close>

fun extract_pages :: "(exn + string) list \<Rightarrow> string \<Rightarrow> exn + string" where
  "extract_pages [] text = Inr text"
| "extract_pages (page # pages) text =
     (case page of Inl e \<Rightarrow> Inl e | Inr t \<Rightarrow> extract_pages pages (text @ t))"

fun read_docs :: "('pdf \<Rightarrow> exn + (exn + string) list) \<Rightarrow> 'pdf list \<Rightarrow> string \<Rightarrow> exn + string" where
  "read_docs reader [] text = Inr text"
| "read_docs reader (pdf # pdf_docs) text =
     (case reader pdf of
        Inl e \<Rightarrow> Inl e
      | Inr pages \<Rightarrow>
          (case extract_pages pages text of
             Inl e \<Rightarrow> Inl e
           | Inr text' \<Rightarrow> read_docs reader pdf_docs text'))"

definition get_pdf_text :: "('pdf \<Rightarrow> exn + (exn + string) list) \<Rightarrow> 'pdf list \<Rightarrow> exn + string" where
  "get_pdf_text reader pdf_docs = read_docs reader pdf_docs ''''"

section \<open>Splitting the text into chunks\<close>

text \<open>
  \<open>RecursiveCharacterTextSplitter\<close> is a class of the text-splitting library, whose code is not
  part of the repository. \<open>get_text_chunks\<close> builds it with a chunk size of 1000, an overlap
  of 200 and the four separators blank line, line break, space and nothing, in this order, and
  calls its \<open>split_text\<close>, which is taken from the services.
\<close>

definition paragraph_separator :: string where
  "paragraph_separator = [CHR 0x0A, CHR 0x0A]"

definition line_separator :: string where
  "line_separator = [CHR 0x0A]"

definition word_separator :: string where
  "word_separator = '' ''"

definition text_splitter :: splitter where
  "text_splitter =
     \<lparr>chunk_size = 1000, chunk_overlap = 200,
      separators = [paragraph_separator, line_separator, word_separator, []]\<rparr>"

definition get_text_chunks :: "'pdf services \<Rightarrow> string \<Rightarrow> exn + string list" where
  "get_text_chunks svc text = split_text svc text_splitter text"

section \<open>The vector store\<close>

text \<open>
  Modelled from the spec: the index service is outside src/. Section 6 of the spec describes
  it as create and describe operations keyed by an index name: \<open>list_indexes\<close> reports the
  indexes created so far, and \<open>create_index\<close> adds one under a name that is not taken and fails
  for a name that is.
\<close>

definition list_indexes :: "pinecone \<Rightarrow> index_model list" where
  "list_indexes pc = indexes pc"

definition create_index :: "index_model \<Rightarrow> pinecone \<Rightarrow> exn + pinecone" where
  "create_index d pc =
     (if name d \<in> set (map name (indexes pc)) then Inl ''ALREADY_EXISTS''
      else Inr (pc\<lparr>indexes := indexes pc @ [d]\<rparr>))"

text \<open>
  The check of \<open>get_vectorstore\<close> that the index exists, with the creation when it does not.
  The result is the exception, if one was raised, the service after the call and the requests
  sent.
\<close>

definition ensure_index :: "string \<Rightarrow> pinecone \<Rightarrow> exn option \<times> pinecone \<times> request list" where
  "ensure_index index_name pc =
     (let existing_indexes = map name (list_indexes pc)
      in if index_name \<notin> set existing_indexes then
           (let d = \<lparr>name = index_name, dimension = 1536, metric = ''cosine'',
                     cloud = ''aws'', region = ''us-east-1''\<rparr>
            in case create_index d pc of
                 Inl e \<Rightarrow> (Some e, pc, [ListIndexes, CreateIndex d])
               | Inr pc' \<Rightarrow> (None, pc', [ListIndexes, CreateIndex d, Sleep 1]))
         else (None, pc, [ListIndexes]))"

definition get_vectorstore ::
  "'pdf services \<Rightarrow> string list \<Rightarrow> string \<Rightarrow> string \<Rightarrow> pinecone
   \<Rightarrow> (exn + vector_store) \<times> pinecone \<times> request list" where
  "get_vectorstore svc text_chunks api_key pinecone_api_key pc =
     (let index_name = ''pdf-chat-index''
      in case ensure_index index_name pc of
           (Some e, pc', rs) \<Rightarrow> (Inl e, pc', rs)
         | (None, pc', rs) \<Rightarrow>
             (case from_texts svc text_chunks api_key index_name of
                Some e \<Rightarrow> (Inl e, pc', rs @ [FromTexts text_chunks index_name])
              | None \<Rightarrow>
                  (Inr \<lparr>texts = text_chunks, embedding_api_key = api_key,
                        store_index_name = index_name\<rparr>,
                   pc', rs @ [FromTexts text_chunks index_name])))"

section \<open>The conversation chain\<close>

definition get_conversation_chain :: "'pdf services \<Rightarrow> vector_store \<Rightarrow> string \<Rightarrow> exn + chain" where
  "get_conversation_chain svc vectorstore api_key =
     (let new_llm = \<lparr>openai_api_key = api_key, model_name = ''gpt-3.5-turbo'',
                      temperature = 7 / 10\<rparr>;
          new_memory = \<lparr>memory_key = ''chat_history'', return_messages = True,
                    output_key = ''answer'', buffer = []\<rparr>
      in case from_llm svc new_llm vectorstore of
           Some e \<Rightarrow> Inl e
         | None \<Rightarrow>
             Inr \<lparr>llm = new_llm, retriever = vectorstore, search_k = 3, memory = new_memory,
                  return_source_documents = True\<rparr>)"

section \<open>Asking a question\<close>

text \<open>The loop at the end of \<open>handle_userinput\<close>: every stored turn is written again.\<close>

fun display_history :: "turn list \<Rightarrow> ui list" where
  "display_history [] = []"
| "display_history (m # ms) = UserMessage (question m) # AssistantMessage (answer m) # display_history ms"

text \<open>
  \<open>reply\<close> is the call of the chain object, \<open>st.session_state.conversation({'question': q})\<close>,
  which runs code of the chain library. The session keeps the chain object, as the library
  has left it, also when the call raises.
\<close>

definition handle_userinput ::
  "(chain \<Rightarrow> string \<Rightarrow> (exn + string) \<times> chain) \<Rightarrow> string \<Rightarrow> session_state \<Rightarrow> run" where
  "handle_userinput reply user_question s =
     (case conversation s of
        None \<Rightarrow>
          \<lparr>raised = None, session = s,
           shown = [Warning ''Please upload and process PDFs first!''], requests = []\<rparr>
      | Some c \<Rightarrow>
          (case reply c user_question of
             (Inl e, c') \<Rightarrow>
               \<lparr>raised = Some e, session = s\<lparr>conversation := Some c'\<rparr>, shown = [],
                requests = [Invoke user_question]\<rparr>
           | (Inr a, c') \<Rightarrow>
               (let s' = s\<lparr>conversation := Some c',
                            chat_history := chat_history s @ [\<lparr>question = user_question, answer = a\<rparr>]\<rparr>
                in \<lparr>raised = None, session = s', shown = display_history (chat_history s'),
                    requests = [Invoke user_question]\<rparr>)))"

section \<open>The script\<close>

text \<open>The decimal digits of a number, as the f-string of \<open>main\<close> prints \<open>len(text_chunks)\<close>.\<close>

fun str_nat :: "nat \<Rightarrow> string" where
  "str_nat n =
     (if n < 10 then [char_of (48 + n)] else str_nat (n div 10) @ [char_of (48 + n mod 10)])"

text \<open>
  The body of the \<open>try\<close> in \<open>main\<close> and its handler: the four stages in order, the two
  assignments to the session state after the last of them, and the error message in place of
  an exception of a stage.
\<close>

definition process_documents ::
  "'pdf services \<Rightarrow> 'pdf list \<Rightarrow> string \<Rightarrow> string \<Rightarrow> session_state \<Rightarrow> pinecone \<Rightarrow> main_run" where
  "process_documents svc pdf_docs openai_key pinecone_key s pc =
     (case get_pdf_text (pdf_reader svc) pdf_docs of
        Inl e \<Rightarrow>
          \<lparr>raised = None, session = s, shown = [Error (''Error processing documents: '' @ e)],
           requests = [], service = pc\<rparr>
      | Inr raw_text \<Rightarrow>
          (case get_text_chunks svc raw_text of
             Inl e \<Rightarrow>
               \<lparr>raised = None, session = s, shown = [Error (''Error processing documents: '' @ e)],
                requests = [], service = pc\<rparr>
           | Inr text_chunks \<Rightarrow>
               (let info = Info (''Created '' @ str_nat (length text_chunks) @ '' text chunks'')
                in case get_vectorstore svc text_chunks openai_key pinecone_key pc of
                     (Inl e, pc', rs) \<Rightarrow>
                       \<lparr>raised = None, session = s,
                        shown = [info, Error (''Error processing documents: '' @ e)],
                        requests = rs, service = pc'\<rparr>
                   | (Inr vectorstore, pc', rs) \<Rightarrow>
                       (case get_conversation_chain svc vectorstore openai_key of
                          Inl e \<Rightarrow>
                            \<lparr>raised = None, session = s,
                             shown = [info, Error (''Error processing documents: '' @ e)],
                             requests = rs, service = pc'\<rparr>
                        | Inr c \<Rightarrow>
                            \<lparr>raised = None,
                             session = s\<lparr>conversation := Some c, processed := True\<rparr>,
                             shown = [info, Success ''Documents processed successfully! You can now ask questions.''],
                             requests = rs, service = pc'\<rparr>))))"

text \<open>
  What the user does in one run of the script: the two keys typed in, the files uploaded,
  whether the button was pressed, and the question typed, if any.
\<close>

record 'pdf inputs =
  openai_key_input :: string
  pinecone_key_input :: string
  uploaded :: "'pdf list"
  process_pressed :: bool
  user_question :: "string option"

text \<open>The button branch of the sidebar.\<close>

definition sidebar :: "'pdf services \<Rightarrow> 'pdf inputs \<Rightarrow> session_state \<Rightarrow> pinecone \<Rightarrow> main_run" where
  "sidebar svc inp s pc =
     (if process_pressed inp then
        (if openai_key_input inp = [] \<or> pinecone_key_input inp = [] then
           \<lparr>raised = None, session = s, shown = [Error ''Please provide both API keys!''],
            requests = [], service = pc\<rparr>
         else if uploaded inp = [] then
           \<lparr>raised = None, session = s, shown = [Error ''Please upload at least one PDF!''],
            requests = [], service = pc\<rparr>
         else process_documents svc (uploaded inp) (openai_key_input inp) (pinecone_key_input inp) s pc)
      else \<lparr>raised = None, session = s, shown = [], requests = [], service = pc\<rparr>)"

text \<open>The two messages of \<open>main\<close> that start with a pictograph, as the bytes of their UTF-8 form.\<close>

definition ready_message :: string where
  "ready_message = [CHR 0xE2, CHR 0x9C, CHR 0x85] @ '' Documents are ready for chat!''"

definition start_message :: string where
  "start_message =
     [CHR 0xF0, CHR 0x9F, CHR 0x91, CHR 0x88]
     @ '' Upload your PDFs and provide API keys in the sidebar to get started!''"

text \<open>One run of \<open>main\<close>. The title, the headers and the fixed markdown are left out.\<close>

definition main :: "'pdf services \<Rightarrow> 'pdf inputs \<Rightarrow> session_state \<Rightarrow> pinecone \<Rightarrow> main_run" where
  "main svc inp s pc =
     (let r1 = sidebar svc inp s pc;
          ready = (if processed (session r1) then [Success ready_message] else [])
      in case user_question inp of
           None \<Rightarrow>
             r1\<lparr>shown := shown r1 @ ready
                   @ (if \<not> processed (session r1) then [Info start_message] else [])\<rparr>
         | Some q \<Rightarrow>
             (if q = [] then
                r1\<lparr>shown := shown r1 @ ready
                      @ (if \<not> processed (session r1) then [Info start_message] else [])\<rparr>
              else
                (let r2 = handle_userinput (call_chain svc) q (session r1)
                 in \<lparr>raised = raised r2, session = session r2,
                     shown = shown r1 @ ready @ shown r2
                       @ (if raised r2 = None \<and> \<not> processed (session r2)
                          then [Info start_message] else []),
                     requests = requests r1 @ requests r2, service = service r1\<rparr>)))"

section \<open>Example values\<close>

text \<open>
  A session after a successful ingest; a chain call that raises and leaves the chain as it is,
  and one that answers and records the turn in the memory of the chain; services that answer
  every request, with a splitter that returns a short text as one chunk; services whose chain
  construction fails; an index service with no index; the session after one answered
  question; a run in which only a question is typed.
\<close>

definition example_chain :: chain where
  "example_chain =
     \<lparr>llm = \<lparr>openai_api_key = ''sk-test'', model_name = ''gpt-3.5-turbo'', temperature = 7 / 10\<rparr>,
      retriever = \<lparr>texts = [''X is a letter.''], embedding_api_key = ''sk-test'',
                   store_index_name = ''pdf-chat-index''\<rparr>,
      search_k = 3,
      memory = \<lparr>memory_key = ''chat_history'', return_messages = True, output_key = ''answer'',
                buffer = []\<rparr>,
      return_source_documents = True\<rparr>"

definition ready_session :: session_state where
  "ready_session = \<lparr>conversation = Some example_chain, chat_history = [], processed = True\<rparr>"


definition fixed_reply :: "chain \<Rightarrow> string \<Rightarrow> (exn + string) \<times> chain" where
  "fixed_reply c q =
     (Inr ''X is a letter.'',
      c\<lparr>memory := (memory c)\<lparr>buffer := buffer (memory c)
           @ [\<lparr>question = q, answer = ''X is a letter.''\<rparr>]\<rparr>\<rparr>)"

definition example_services :: "nat services" where
  "example_services =
     \<lparr>pdf_reader = (\<lambda>pdf. Inr [Inr ''X is a letter.'']),
      split_text = (\<lambda>sp text. Inr [text]),
      from_texts = (\<lambda>chunks key index. None),
      from_llm = (\<lambda>model store. None),
      call_chain = fixed_reply\<rparr>"

definition broken_services :: "nat services" where
  "broken_services = example_services\<lparr>from_llm := (\<lambda>model store. Some ''invalid key'')\<rparr>"

definition empty_pinecone :: pinecone where
  "empty_pinecone = \<lparr>indexes = []\<rparr>"

definition asked_session :: session_state where
  "asked_session = session (handle_userinput fixed_reply ''What is X?'' ready_session)"

definition first_question :: "nat inputs" where
  "first_question =
     \<lparr>openai_key_input = [], pinecone_key_input = [], uploaded = [], process_pressed = False,
      user_question = Some ''What is X?''\<rparr>"

section \<open>A lemma about the sidebar\<close>

lemma sidebar_shows_no_answer: "AssistantMessage a \<notin> set (shown (sidebar svc inp s pc))"
  by (auto simp: sidebar_def process_documents_def Let_def split: sum.splits prod.splits)

section \<open>Properties of asking\<close>

text \<open>
  C10. For every question submitted while the session is not ready (\<open>conversation\<close> is
  \<open>None\<close>), \<open>handle_userinput\<close> returns without an exception, leaves the whole session
  state as it was, \<open>chat_history\<close> included, and sends no request to an outside service.
\<close>

theorem handle_userinput_not_ready_frame:
  "conversation s = None \<Longrightarrow>
     session (handle_userinput reply q s) = s
     \<and> chat_history (session (handle_userinput reply q s)) = chat_history s
     \<and> requests (handle_userinput reply q s) = []
     \<and> raised (handle_userinput reply q s) = None"
  by (simp add: handle_userinput_def)

theorem handle_userinput_not_ready_frame_witness:
  "conversation initial_session_state = None
   \<and> session (handle_userinput fixed_reply ''What is X?'' initial_session_state)
       = initial_session_state
   \<and> requests (handle_userinput fixed_reply ''What is X?'' initial_session_state) = []"
proof -
  have h: "conversation initial_session_state = None"
    by (simp add: initial_session_state_def)
  show ?thesis
    using h handle_userinput_not_ready_frame [OF h, of fixed_reply "''What is X?''"]
    by simp
qed

text \<open>
  C3, as stated, fails: a question asked in a new session does not make \<open>handle_userinput\<close>
  fail. No exception leaves it; it shows a warning and returns as after any other call.
\<close>

theorem ask_before_ingest_counterexample:
  "conversation initial_session_state = None
   \<and> raised (handle_userinput fixed_reply ''What is X?'' initial_session_state) = None
   \<and> shown (handle_userinput fixed_reply ''What is X?'' initial_session_state)
       = [Warning ''Please upload and process PDFs first!'']"
  by (simp add: handle_userinput_def initial_session_state_def)

text \<open>
  C3, amended. For every question asked while \<open>conversation\<close> is not set, that is before any
  successful ingest of the session, \<open>handle_userinput\<close> raises nothing and returns at its
  guard: all it writes to the page is the warning that documents must be processed first, and
  no answer, empty or not, is shown. The same holds for a whole run of \<open>main\<close> in which the
  sidebar has left \<open>conversation\<close> unset: the warning is on the page, no answer is, nothing
  is raised, and the session is still not ready afterwards.
\<close>

theorem ask_before_ingest_warns:
  "(conversation s = None \<longrightarrow>
      shown (handle_userinput reply q s) = [Warning ''Please upload and process PDFs first!'']
      \<and> (\<forall>a. AssistantMessage a \<notin> set (shown (handle_userinput reply q s)))
      \<and> raised (handle_userinput reply q s) = None)
   \<and> (conversation (session (sidebar svc inp s pc)) = None \<and> user_question inp = Some q \<and> q \<noteq> [] \<longrightarrow>
      Warning ''Please upload and process PDFs first!'' \<in> set (shown (main svc inp s pc))
      \<and> (\<forall>a. AssistantMessage a \<notin> set (shown (main svc inp s pc)))
      \<and> raised (main svc inp s pc) = None
      \<and> conversation (session (main svc inp s pc)) = None)"
proof -
  have 1: "shown (handle_userinput reply q s) = [Warning ''Please upload and process PDFs first!'']
      \<and> (\<forall>a. AssistantMessage a \<notin> set (shown (handle_userinput reply q s)))
      \<and> raised (handle_userinput reply q s) = None" if "conversation s = None"
    using that by (simp add: handle_userinput_def)
  have 2: "Warning ''Please upload and process PDFs first!'' \<in> set (shown (main svc inp s pc))
      \<and> (\<forall>a. AssistantMessage a \<notin> set (shown (main svc inp s pc)))
      \<and> raised (main svc inp s pc) = None
      \<and> conversation (session (main svc inp s pc)) = None"
    if "conversation (session (sidebar svc inp s pc)) = None" "user_question inp = Some q" "q \<noteq> []"
    using that sidebar_shows_no_answer [of _ svc inp s pc]
    by (simp add: main_def handle_userinput_def Let_def)
  show ?thesis using 1 2 by blast
qed

theorem ask_before_ingest_warns_witness:
  "conversation initial_session_state = None
   \<and> shown (handle_userinput fixed_reply ''What is X?'' initial_session_state)
       = [Warning ''Please upload and process PDFs first!'']
   \<and> conversation (session (sidebar example_services first_question initial_session_state
         empty_pinecone)) = None
   \<and> user_question first_question = Some ''What is X?''
   \<and> Warning ''Please upload and process PDFs first!''
       \<in> set (shown (main example_services first_question initial_session_state empty_pinecone))"
proof -
  have h: "conversation initial_session_state = None"
    by (simp add: initial_session_state_def)
  have k: "conversation (session (sidebar example_services first_question initial_session_state
             empty_pinecone)) = None"
    by (simp add: sidebar_def first_question_def initial_session_state_def)
  have u: "user_question first_question = Some ''What is X?''"
    by (simp add: first_question_def)
  show ?thesis
    using h k u
      ask_before_ingest_warns [of initial_session_state fixed_reply "''What is X?''"
        example_services first_question empty_pinecone]
    by simp
qed




section \<open>Properties of the ingest\<close>

text \<open>
  C2. The check for the index in \<open>get_vectorstore\<close> is idempotent. For every index name and
  every state of the index service, two calls in a row both succeed, the second call changes
  nothing and creates nothing, and the two calls together create the index exactly once when
  it did not exist before and not at all when it did.
\<close>

theorem ensure_index_idempotent:
  "(case ensure_index index_name pc of
      (e1, pc1, rs1) \<Rightarrow>
        (case ensure_index index_name pc1 of
           (e2, pc2, rs2) \<Rightarrow>
             e1 = None \<and> e2 = None \<and> pc2 = pc1 \<and> filter is_create rs2 = []
             \<and> length (filter is_create (rs1 @ rs2))
                 = (if index_name \<in> set (map name (indexes pc)) then 0 else 1)
             \<and> (if index_name \<in> set (map name (indexes pc)) then pc1 = pc
                 else indexes pc1 = indexes pc @ [\<lparr>name = index_name, dimension = 1536,
                        metric = ''cosine'', cloud = ''aws'', region = ''us-east-1''\<rparr>])))"
  by (simp add: ensure_index_def list_indexes_def create_index_def Let_def)

text \<open>
  C8. If a stage of the document processing raises (the text extraction, the chunking, the
  creation of the vector store or the construction of the chain), the session state is
  unchanged: \<open>conversation\<close> and \<open>processed\<close> keep their values, the exception is caught,
  and its message is shown as an error.
\<close>

theorem process_documents_error_keeps_session:
  "get_pdf_text (pdf_reader svc) pdf_docs = Inl e
   \<or> (\<exists>raw_text.
         get_pdf_text (pdf_reader svc) pdf_docs = Inr raw_text
         \<and> get_text_chunks svc raw_text = Inl e)
   \<or> (\<exists>raw_text text_chunks pc' rs.
         get_pdf_text (pdf_reader svc) pdf_docs = Inr raw_text
         \<and> get_text_chunks svc raw_text = Inr text_chunks
         \<and> get_vectorstore svc text_chunks openai_key pinecone_key pc = (Inl e, pc', rs))
   \<or> (\<exists>raw_text text_chunks vectorstore pc' rs.
         get_pdf_text (pdf_reader svc) pdf_docs = Inr raw_text
         \<and> get_text_chunks svc raw_text = Inr text_chunks
         \<and> get_vectorstore svc text_chunks openai_key pinecone_key pc
             = (Inr vectorstore, pc', rs)
         \<and> get_conversation_chain svc vectorstore openai_key = Inl e) \<Longrightarrow>
     session (process_documents svc pdf_docs openai_key pinecone_key s pc) = s
     \<and> conversation (session (process_documents svc pdf_docs openai_key pinecone_key s pc))
         = conversation s
     \<and> processed (session (process_documents svc pdf_docs openai_key pinecone_key s pc))
         = processed s
     \<and> raised (process_documents svc pdf_docs openai_key pinecone_key s pc) = None
     \<and> last (shown (process_documents svc pdf_docs openai_key pinecone_key s pc))
         = Error (''Error processing documents: '' @ e)"
  by (auto simp add: process_documents_def Let_def)

theorem process_documents_error_keeps_session_witness:
  "get_pdf_text (pdf_reader broken_services) [0::nat] = Inr ''X is a letter.''
   \<and> get_text_chunks broken_services ''X is a letter.'' = Inr [''X is a letter.'']
   \<and> fst (get_vectorstore broken_services [''X is a letter.''] ''sk-test'' ''pc-test''
        empty_pinecone)
       = Inr \<lparr>texts = [''X is a letter.''], embedding_api_key = ''sk-test'',
              store_index_name = ''pdf-chat-index''\<rparr>
   \<and> get_conversation_chain broken_services
        \<lparr>texts = [''X is a letter.''], embedding_api_key = ''sk-test'',
         store_index_name = ''pdf-chat-index''\<rparr> ''sk-test'' = Inl ''invalid key''
   \<and> session (process_documents broken_services [0] ''sk-test'' ''pc-test'' initial_session_state
        empty_pinecone) = initial_session_state
   \<and> processed (session (process_documents broken_services [0] ''sk-test'' ''pc-test''
        initial_session_state empty_pinecone)) = False"
proof -
  have t: "get_pdf_text (pdf_reader broken_services) [0::nat] = Inr ''X is a letter.''"
    by (simp add: get_pdf_text_def broken_services_def example_services_def)
  have c: "get_text_chunks broken_services ''X is a letter.'' = Inr [''X is a letter.'']"
    by (simp add: get_text_chunks_def broken_services_def example_services_def)
  have v: "get_vectorstore broken_services [''X is a letter.''] ''sk-test'' ''pc-test''
             empty_pinecone
           = (Inr \<lparr>texts = [''X is a letter.''], embedding_api_key = ''sk-test'',
                   store_index_name = ''pdf-chat-index''\<rparr>,
              \<lparr>indexes = [\<lparr>name = ''pdf-chat-index'', dimension = 1536, metric = ''cosine'',
                           cloud = ''aws'', region = ''us-east-1''\<rparr>]\<rparr>,
              [ListIndexes,
               CreateIndex \<lparr>name = ''pdf-chat-index'', dimension = 1536, metric = ''cosine'',
                            cloud = ''aws'', region = ''us-east-1''\<rparr>,
               Sleep 1, FromTexts [''X is a letter.''] ''pdf-chat-index''])"
    by (simp add: get_vectorstore_def ensure_index_def list_indexes_def create_index_def Let_def
        broken_services_def example_services_def empty_pinecone_def)
  have l: "get_conversation_chain broken_services
             \<lparr>texts = [''X is a letter.''], embedding_api_key = ''sk-test'',
              store_index_name = ''pdf-chat-index''\<rparr> ''sk-test'' = Inl ''invalid key''"
    by (simp add: get_conversation_chain_def broken_services_def example_services_def Let_def)
  have "get_pdf_text (pdf_reader broken_services) [0::nat] = Inl ''invalid key''
   \<or> (\<exists>raw_text.
         get_pdf_text (pdf_reader broken_services) [0] = Inr raw_text
         \<and> get_text_chunks broken_services raw_text = Inl ''invalid key'')
   \<or> (\<exists>raw_text text_chunks pc' rs.
         get_pdf_text (pdf_reader broken_services) [0] = Inr raw_text
         \<and> get_text_chunks broken_services raw_text = Inr text_chunks
         \<and> get_vectorstore broken_services text_chunks ''sk-test'' ''pc-test''
              empty_pinecone = (Inl ''invalid key'', pc', rs))
   \<or> (\<exists>raw_text text_chunks vectorstore pc' rs.
         get_pdf_text (pdf_reader broken_services) [0] = Inr raw_text
         \<and> get_text_chunks broken_services raw_text = Inr text_chunks
         \<and> get_vectorstore broken_services text_chunks ''sk-test'' ''pc-test''
              empty_pinecone = (Inr vectorstore, pc', rs)
         \<and> get_conversation_chain broken_services vectorstore ''sk-test'' = Inl ''invalid key'')"
    using t c v l by blast
  from process_documents_error_keeps_session [OF this, of initial_session_state] t c v l
  show ?thesis by (simp add: initial_session_state_def)
qed

text \<open>
  C9. A successful document processing, in whatever state the session is, a second one
  included, sets \<open>conversation\<close> to a new chain whose memory is empty and leaves
  \<open>chat_history\<close> as it was: the turns shown so far stay, and no longer reach the model.
\<close>

theorem process_documents_again_resets_memory:
  "get_pdf_text (pdf_reader svc) pdf_docs = Inr raw_text \<Longrightarrow>
   get_text_chunks svc raw_text = Inr text_chunks \<Longrightarrow>
   get_vectorstore svc text_chunks openai_key pinecone_key pc
     = (Inr vectorstore, pc', rs) \<Longrightarrow>
   get_conversation_chain svc vectorstore openai_key = Inr c' \<Longrightarrow>
     conversation (session (process_documents svc pdf_docs openai_key pinecone_key s pc)) = Some c'
     \<and> buffer (memory c') = []
     \<and> chat_history (session (process_documents svc pdf_docs openai_key pinecone_key s pc))
         = chat_history s
     \<and> processed (session (process_documents svc pdf_docs openai_key pinecone_key s pc))"
  by (auto simp add: process_documents_def get_conversation_chain_def Let_def split: option.splits)

theorem process_documents_again_resets_memory_witness:
  "map_option (\<lambda>c. buffer (memory c)) (conversation asked_session)
     = Some [\<lparr>question = ''What is X?'', answer = ''X is a letter.''\<rparr>]
   \<and> chat_history asked_session = [\<lparr>question = ''What is X?'', answer = ''X is a letter.''\<rparr>]
   \<and> map_option (\<lambda>c. buffer (memory c))
        (conversation (session (process_documents example_services [0::nat] ''sk-test'' ''pc-test''
           asked_session empty_pinecone))) = Some []
   \<and> chat_history (session (process_documents example_services [0] ''sk-test'' ''pc-test''
        asked_session empty_pinecone))
       = [\<lparr>question = ''What is X?'', answer = ''X is a letter.''\<rparr>]"
proof -
  have t: "get_pdf_text (pdf_reader example_services) [0::nat] = Inr ''X is a letter.''"
    by (simp add: get_pdf_text_def example_services_def)
  have c: "get_text_chunks example_services ''X is a letter.'' = Inr [''X is a letter.'']"
    by (simp add: get_text_chunks_def example_services_def)
  have v: "get_vectorstore example_services [''X is a letter.''] ''sk-test'' ''pc-test''
             empty_pinecone
           = (Inr \<lparr>texts = [''X is a letter.''], embedding_api_key = ''sk-test'',
                   store_index_name = ''pdf-chat-index''\<rparr>,
              \<lparr>indexes = [\<lparr>name = ''pdf-chat-index'', dimension = 1536, metric = ''cosine'',
                           cloud = ''aws'', region = ''us-east-1''\<rparr>]\<rparr>,
              [ListIndexes,
               CreateIndex \<lparr>name = ''pdf-chat-index'', dimension = 1536, metric = ''cosine'',
                            cloud = ''aws'', region = ''us-east-1''\<rparr>,
               Sleep 1, FromTexts [''X is a letter.''] ''pdf-chat-index''])"
    by (simp add: get_vectorstore_def ensure_index_def list_indexes_def create_index_def Let_def
        example_services_def empty_pinecone_def)
  have l: "get_conversation_chain example_services
             \<lparr>texts = [''X is a letter.''], embedding_api_key = ''sk-test'',
              store_index_name = ''pdf-chat-index''\<rparr> ''sk-test'' = Inr example_chain"
    by (simp add: get_conversation_chain_def example_services_def example_chain_def Let_def)
  have a: "asked_session =
             \<lparr>conversation = Some (example_chain\<lparr>memory := (memory example_chain)
                  \<lparr>buffer := [\<lparr>question = ''What is X?'', answer = ''X is a letter.''\<rparr>]\<rparr>\<rparr>),
              chat_history = [\<lparr>question = ''What is X?'', answer = ''X is a letter.''\<rparr>],
              processed = True\<rparr>"
    by (simp add: asked_session_def handle_userinput_def fixed_reply_def
        ready_session_def example_chain_def)
  from process_documents_again_resets_memory [OF t c v l, of asked_session]
  show ?thesis by (simp add: a)
qed

end
